theory Spec2Isabelle
  imports Main
begin

section \<open>Paths: the part of pathlib (POSIX flavour) that the converter uses\<close>

text \<open>
  \<^verbatim>\<open>pcapng_to_har\<close> turns its path arguments into \<^verbatim>\<open>pathlib.Path\<close> objects, compares
  them with \<^verbatim>\<open>!=\<close>, derives the default output with \<^verbatim>\<open>with_suffix(".har")\<close> and asks
  \<^verbatim>\<open>exists()\<close> and \<^verbatim>\<open>is_file()\<close>. A path object is its root (\<^verbatim>\<open>""\<close>, \<^verbatim>\<open>"/"\<close> or
  \<^verbatim>\<open>"//"\<close>) and its components; building one from a string drops empty and \<^verbatim>\<open>"."\<close>
  components, so that equality of paths is equality of the parsed form.
\<close>

datatype path = PurePath (root: string) (parts: "string list")

fun split_sep :: "string \<Rightarrow> string list" where
  "split_sep [] = [[]]"
| "split_sep (c # cs) =
     (if c = CHR ''/'' then [] # split_sep cs
      else (case split_sep cs of [] \<Rightarrow> [[c]] | w # ws \<Rightarrow> (c # w) # ws))"

definition splitroot :: "string \<Rightarrow> string" where
  "splitroot s =
     (if take 1 s = ''/'' then
        (if take 2 s = ''//'' \<and> take 3 s \<noteq> ''///'' then ''//'' else ''/'')
      else [])"

definition Path :: "string \<Rightarrow> path" where
  "Path s = PurePath (splitroot s) (filter (\<lambda>w. w \<noteq> [] \<and> w \<noteq> ''.'') (split_sep s))"

fun join_sep :: "string list \<Rightarrow> string" where
  "join_sep [] = []"
| "join_sep [w] = w"
| "join_sep (w # ws) = w @ ''/'' @ join_sep ws"

definition str :: "path \<Rightarrow> string" where
  "str p = (if root p = [] \<and> parts p = [] then ''.'' else root p @ join_sep (parts p))"

definition name :: "path \<Rightarrow> string" where
  "name p = (case parts p of [] \<Rightarrow> [] | _ \<Rightarrow> last (parts p))"

definition rfind :: "char \<Rightarrow> string \<Rightarrow> int" where
  "rfind c s =
     (if c \<in> set s then int (length s) - 1 - int (length (takeWhile (\<lambda>x. x \<noteq> c) (rev s)))
      else - 1)"

definition suffix :: "string \<Rightarrow> string" where
  "suffix nm =
     (let i = rfind CHR ''.'' nm
      in if 0 < i \<and> i < int (length nm) - 1 then drop (nat i) nm else [])"

section \<open>Exceptions, the file system, the log\<close>

datatype error =
    AssertionError path
  | FileExistsError path
  | IsADirectoryError path
  | ValueError string
  | TypeError string
  | RuntimeError string error
  | Raised string

text \<open>
  \<open>RuntimeError a c\<close> is \<^verbatim>\<open>RuntimeError(a)\<close> raised \<^verbatim>\<open>from c\<close>: its argument and its
  cause. \<open>Raised d\<close> stands for any other \<^verbatim>\<open>Exception\<close> a collaborator raises. The
  values of this type are instances of \<^verbatim>\<open>Exception\<close>: signals that derive from
  \<^verbatim>\<open>BaseException\<close> only (\<^verbatim>\<open>KeyboardInterrupt\<close>, \<^verbatim>\<open>SystemExit\<close>) are not values of it.
\<close>

definition with_suffix :: "path \<Rightarrow> string \<Rightarrow> error + path" where
  "with_suffix p sfx =
     (if CHR ''/'' \<in> set sfx then Inl (ValueError ''Invalid suffix'')
      else if (sfx \<noteq> [] \<and> take 1 sfx \<noteq> ''.'') \<or> sfx = ''.'' then Inl (ValueError ''Invalid suffix'')
      else if name p = [] then Inl (ValueError ''has an empty name'')
      else
        (let old_suffix = suffix (name p);
             nm = (if old_suffix = [] then name p @ sfx
                   else take (length (name p) - length old_suffix) (name p) @ sfx)
         in Inr (PurePath (root p) (butlast (parts p) @ [nm]))))"

datatype node = File string | Dir

type_synonym filesystem = "path \<rightharpoonup> node"

datatype level = INFO | WARNING | ERROR

datatype tshark = Tshark "string option"

datatype pyval = PyNone | PyStr string | PyBool bool | PyTshark tshark

type_synonym kwargs = "(string \<times> pyval) list"

text \<open>
  The calls to collaborators, in the order they are made: each is recorded when it is
  entered. A call that raises ends the run, so every call recorded before another one
  has returned normally.
\<close>

datatype 'h call =
    Load_traffic tshark path
  | Parse_traffic
  | Save_har path bool kwargs
  | To_har
  | Stacktrace_enrich path
  | ContentDecryption_enrich path
  | Open_w path
  | Json_dump 'h kwargs

record 'h world =
  fs :: filesystem
  logged :: "(level \<times> string) list"
  calls :: "'h call list"

definition start :: "filesystem \<Rightarrow> 'h world" where
  "start fs0 = \<lparr>fs = fs0, logged = [], calls = []\<rparr>"

type_synonym ('h, 'a) prog = "'h world \<Rightarrow> (error + 'a) \<times> 'h world"

definition return :: "'a \<Rightarrow> ('h, 'a) prog" where
  "return x = (\<lambda>w. (Inr x, w))"

definition raise :: "error \<Rightarrow> ('h, 'a) prog" where
  "raise e = (\<lambda>w. (Inl e, w))"

definition bind :: "('h, 'a) prog \<Rightarrow> ('a \<Rightarrow> ('h, 'b) prog) \<Rightarrow> ('h, 'b) prog" where
  "bind m f = (\<lambda>w. case m w of (Inl e, w') \<Rightarrow> (Inl e, w') | (Inr x, w') \<Rightarrow> f x w')"

definition try_except :: "('h, 'a) prog \<Rightarrow> (error \<Rightarrow> ('h, 'a) prog) \<Rightarrow> ('h, 'a) prog" where
  "try_except m h = (\<lambda>w. case m w of (Inl e, w') \<Rightarrow> h e w' | (Inr x, w') \<Rightarrow> (Inr x, w'))"

definition lift :: "error + 'a \<Rightarrow> ('h, 'a) prog" where
  "lift r = (\<lambda>w. (r, w))"

definition py_assert :: "bool \<Rightarrow> path \<Rightarrow> ('h, unit) prog" where
  "py_assert b a = (if b then return () else raise (AssertionError a))"

definition logger :: "level \<Rightarrow> string \<Rightarrow> ('h, unit) prog" where
  "logger l msg = (\<lambda>w. (Inr (), w\<lparr>logged := logged w @ [(l, msg)]\<rparr>))"

definition called :: "'h call \<Rightarrow> ('h, unit) prog" where
  "called c = (\<lambda>w. (Inr (), w\<lparr>calls := calls w @ [c]\<rparr>))"

definition exists :: "path \<Rightarrow> ('h, bool) prog" where
  "exists p = (\<lambda>w. (Inr (fs w p \<noteq> None), w))"

definition is_file :: "path \<Rightarrow> ('h, bool) prog" where
  "is_file p = (\<lambda>w. (Inr (case fs w p of Some (File _) \<Rightarrow> True | _ \<Rightarrow> False), w))"

text \<open>
  \<^verbatim>\<open>output_file.open("w")\<close>: the file is created or truncated at once; a directory at the
  path makes the call raise.
\<close>

definition open_w :: "path \<Rightarrow> ('h, unit) prog" where
  "open_w p =
     bind (called (Open_w p)) (\<lambda>_. (\<lambda>w.
       case fs w p of
         Some Dir \<Rightarrow> (Inl (IsADirectoryError p), w)
       | _ \<Rightarrow> (Inr (), w\<lparr>fs := (fs w)(p \<mapsto> File [])\<rparr>)))"

section \<open>The collaborators\<close>

text \<open>
  The converter drives the tshark wrapper, the traffic dump, the two enrichment classes
  and \<^verbatim>\<open>json.dump\<close>. They are parameters of the model: what each returns or raises, and
  for the writers what they leave in the file system. \<open>'tr\<close> is the traffic dump,
  \<open>'h\<close> the HAR data (\<^verbatim>\<open>har_data\<close>). The readers see the file system and do not change it;
  \<^verbatim>\<open>save_har\<close> returns the file system it leaves, also when it raises. \<^verbatim>\<open>json.dump\<close>
  returns the text it has written to the open file and the exception that interrupted it,
  if any. An enrichment object changes \<^verbatim>\<open>har_data\<close> in place: its field returns the data
  after \<^verbatim>\<open>enrich()\<close>.
\<close>

record ('tr, 'h) env =
  Tshark_init :: "string option \<Rightarrow> error + tshark"
  load_traffic :: "tshark \<Rightarrow> path \<Rightarrow> filesystem \<Rightarrow> error + 'tr"
  parse_traffic :: "'tr \<Rightarrow> error + 'tr"
  save_har :: "'tr \<Rightarrow> path \<Rightarrow> bool \<Rightarrow> kwargs \<Rightarrow> filesystem \<Rightarrow> error option \<times> filesystem"
  to_har :: "'tr \<Rightarrow> error + 'h"
  Stacktrace :: "'h \<Rightarrow> path \<Rightarrow> filesystem \<Rightarrow> error + 'h"
  ContentDecryption :: "'h \<Rightarrow> path \<Rightarrow> filesystem \<Rightarrow> error + 'h"
  json_dump :: "'h \<Rightarrow> kwargs \<Rightarrow> string \<times> error option"

definition do_load_traffic :: "('tr, 'h) env \<Rightarrow> tshark \<Rightarrow> path \<Rightarrow> ('h, 'tr) prog" where
  "do_load_traffic env t p =
     bind (called (Load_traffic t p)) (\<lambda>_. (\<lambda>w. (load_traffic env t p (fs w), w)))"

definition do_parse_traffic :: "('tr, 'h) env \<Rightarrow> 'tr \<Rightarrow> ('h, 'tr) prog" where
  "do_parse_traffic env tr = bind (called Parse_traffic) (\<lambda>_. lift (parse_traffic env tr))"

definition do_save_har :: "('tr, 'h) env \<Rightarrow> 'tr \<Rightarrow> path \<Rightarrow> bool \<Rightarrow> kwargs \<Rightarrow> ('h, unit) prog" where
  "do_save_har env tr p ow kws =
     bind (called (Save_har p ow kws)) (\<lambda>_. (\<lambda>w.
       case save_har env tr p ow kws (fs w) of
         (None, fs') \<Rightarrow> (Inr (), w\<lparr>fs := fs'\<rparr>)
       | (Some e, fs') \<Rightarrow> (Inl e, w\<lparr>fs := fs'\<rparr>)))"

definition do_to_har :: "('tr, 'h) env \<Rightarrow> 'tr \<Rightarrow> ('h, 'h) prog" where
  "do_to_har env tr = bind (called To_har) (\<lambda>_. lift (to_har env tr))"

definition do_Stacktrace :: "('tr, 'h) env \<Rightarrow> 'h \<Rightarrow> path \<Rightarrow> ('h, 'h) prog" where
  "do_Stacktrace env h p =
     bind (called (Stacktrace_enrich p)) (\<lambda>_. (\<lambda>w. (Stacktrace env h p (fs w), w)))"

definition do_ContentDecryption :: "('tr, 'h) env \<Rightarrow> 'h \<Rightarrow> path \<Rightarrow> ('h, 'h) prog" where
  "do_ContentDecryption env h p =
     bind (called (ContentDecryption_enrich p)) (\<lambda>_. (\<lambda>w. (ContentDecryption env h p (fs w), w)))"

text \<open>
  \<^verbatim>\<open>with output_file.open("w") as f: json.dump(har_data, f, **json_dump_kws)\<close>: the text
  written before the dump returned or raised is what the closed file holds.
\<close>

definition do_json_dump :: "('tr, 'h) env \<Rightarrow> 'h \<Rightarrow> path \<Rightarrow> kwargs \<Rightarrow> ('h, unit) prog" where
  "do_json_dump env h p kws =
     bind (called (Json_dump h kws)) (\<lambda>_. (\<lambda>w.
       case json_dump env h kws of
         (txt, None) \<Rightarrow> (Inr (), w\<lparr>fs := (fs w)(p \<mapsto> File txt)\<rparr>)
       | (txt, Some e) \<Rightarrow> (Inl e, w\<lparr>fs := (fs w)(p \<mapsto> File txt)\<rparr>)))"

section \<open>pcapng\_to\_har\<close>

text \<open>
  \<^verbatim>\<open>Path(x) if x else None\<close>: \<^verbatim>\<open>None\<close> and the empty string are false.
\<close>

definition Path_if :: "string option \<Rightarrow> path option" where
  "Path_if x = (case x of None \<Rightarrow> None | Some s \<Rightarrow> (if s = [] then None else Some (Path s)))"

text \<open>
  The body of \<^verbatim>\<open>pcapng_to_har\<close> in the blocks its comments delimit. \<open>convert\<close> is
  the source from the path handling to \<^verbatim>\<open>har_data = traffic.to_har()\<close>: it returns the
  output path and the HAR data.
\<close>

definition convert ::
  "('tr, 'h) env \<Rightarrow> string \<Rightarrow> string option \<Rightarrow> tshark option \<Rightarrow> bool \<Rightarrow> kwargs
     \<Rightarrow> ('h, path \<times> 'h) prog" where
  "convert env input_file0 output_file0 tshark0 overwrite json_dump_kws =
     (let input_file = Path input_file0 in
      bind (case output_file0 of
              None \<Rightarrow> lift (with_suffix input_file ''.har'')
            | Some s \<Rightarrow> return (Path s)) (\<lambda>output_file.
      bind (py_assert (output_file \<noteq> input_file) input_file) (\<lambda>_.
      bind (exists output_file) (\<lambda>ex.
      bind (if ex \<and> \<not> overwrite then raise (FileExistsError output_file) else return ()) (\<lambda>_.
      bind (case tshark0 of None \<Rightarrow> lift (Tshark_init env None) | Some t \<Rightarrow> return t) (\<lambda>tshark.
      bind (do_load_traffic env tshark input_file) (\<lambda>traffic0.
      bind (do_parse_traffic env traffic0) (\<lambda>traffic.
      bind (do_save_har env traffic output_file overwrite json_dump_kws) (\<lambda>_.
      bind (do_to_har env traffic) (\<lambda>har_data.
      return (output_file, har_data)))))))))))"

text \<open>
  \<^verbatim>\<open># Add stacktrace information to the HAR\<close>: returns the flag \<^verbatim>\<open>enriched\<close> and the
  HAR data.
\<close>

definition add_stacktrace ::
  "('tr, 'h) env \<Rightarrow> 'h \<Rightarrow> string option \<Rightarrow> ('h, bool \<times> 'h) prog" where
  "add_stacktrace env har_data socket_operations_file0 =
     (case Path_if socket_operations_file0 of
        None \<Rightarrow>
          bind (logger ERROR ''Invalid stacktrace data input file, skip enrichment'')
            (\<lambda>_. return (False, har_data))
      | Some socket_operations_file \<Rightarrow>
          bind (is_file socket_operations_file) (\<lambda>isf.
            if isf then
              bind (do_Stacktrace env har_data socket_operations_file) (\<lambda>h.
              bind (logger INFO (''The HAR has been enriched with stacktrace data from ''
                      @ str socket_operations_file))
                (\<lambda>_. return (True, h)))
            else
              bind (logger ERROR ''Invalid stacktrace data input file, skip enrichment'')
                (\<lambda>_. return (False, har_data))))"

text \<open>\<^verbatim>\<open># Add content decryption to the HAR\<close>\<close>

definition add_decryption ::
  "('tr, 'h) env \<Rightarrow> bool \<Rightarrow> 'h \<Rightarrow> string option \<Rightarrow> ('h, bool \<times> 'h) prog" where
  "add_decryption env enriched har_data cryptography_operations_file0 =
     (case Path_if cryptography_operations_file0 of
        None \<Rightarrow>
          bind (logger ERROR ''Invalid decryption data input file, skip enrichment'')
            (\<lambda>_. return (enriched, har_data))
      | Some cryptography_operations_file \<Rightarrow>
          bind (is_file cryptography_operations_file) (\<lambda>isf.
            if isf then
              bind (do_ContentDecryption env har_data cryptography_operations_file) (\<lambda>h.
              bind (logger INFO (''The HAR has been enriched with decrypted content from ''
                      @ str cryptography_operations_file))
                (\<lambda>_. return (True, h)))
            else
              bind (logger ERROR ''Invalid decryption data input file, skip enrichment'')
                (\<lambda>_. return (enriched, har_data))))"

text \<open>\<^verbatim>\<open># Save the enriched HAR data\<close>, and the closing log record.\<close>

definition save_enriched ::
  "('tr, 'h) env \<Rightarrow> bool \<Rightarrow> 'h \<Rightarrow> path \<Rightarrow> kwargs \<Rightarrow> ('h, unit) prog" where
  "save_enriched env enriched har_data output_file json_dump_kws =
     bind (if enriched then
             bind (open_w output_file)
               (\<lambda>_. do_json_dump env har_data output_file json_dump_kws)
           else return ()) (\<lambda>_.
     logger INFO (''The HAR has been saved in '' @ str output_file))"

definition enrich ::
  "('tr, 'h) env \<Rightarrow> path \<Rightarrow> 'h \<Rightarrow> string option \<Rightarrow> string option \<Rightarrow> kwargs \<Rightarrow> ('h, unit) prog" where
  "enrich env output_file har_data socket_operations_file cryptography_operations_file
       json_dump_kws =
     bind (add_stacktrace env har_data socket_operations_file) (\<lambda>(enriched1, har_data1).
     bind (add_decryption env enriched1 har_data1 cryptography_operations_file)
       (\<lambda>(enriched, har_data2).
     save_enriched env enriched har_data2 output_file json_dump_kws))"

definition pcapng_to_har ::
  "('tr, 'h) env \<Rightarrow> string \<Rightarrow> string option \<Rightarrow> tshark option \<Rightarrow> string option \<Rightarrow> string option
     \<Rightarrow> bool \<Rightarrow> kwargs \<Rightarrow> ('h, unit) prog" where
  "pcapng_to_har env input_file output_file tshark socket_operations_file
       cryptography_operations_file overwrite json_dump_kws =
     bind (convert env input_file output_file tshark overwrite json_dump_kws)
       (\<lambda>(output_path, har_data).
     enrich env output_path har_data socket_operations_file cryptography_operations_file
       json_dump_kws)"

text \<open>
  A call by keyword: the keywords that name a parameter are bound to it (an absent one
  takes its default), every other keyword goes to \<^verbatim>\<open>**json_dump_kws\<close>. The values are
  read at the annotated types of the parameters.
\<close>

definition as_str :: "pyval option \<Rightarrow> string option" where
  "as_str v = (case v of Some (PyStr s) \<Rightarrow> Some s | _ \<Rightarrow> None)"

definition as_tshark :: "pyval option \<Rightarrow> tshark option" where
  "as_tshark v = (case v of Some (PyTshark t) \<Rightarrow> Some t | _ \<Rightarrow> None)"

definition truthy :: "pyval option \<Rightarrow> bool" where
  "truthy v =
     (case v of
        None \<Rightarrow> False
      | Some PyNone \<Rightarrow> False
      | Some (PyStr s) \<Rightarrow> s \<noteq> []
      | Some (PyBool b) \<Rightarrow> b
      | Some (PyTshark _) \<Rightarrow> True)"

definition keyword_only :: "string list" where
  "keyword_only =
     [''tshark'', ''socket_operations_file'', ''cryptography_operations_file'', ''overwrite'']"

definition pcapng_to_har_call ::
  "('tr, 'h) env \<Rightarrow> string \<Rightarrow> string option \<Rightarrow> kwargs \<Rightarrow> ('h, unit) prog" where
  "pcapng_to_har_call env input_file output_file kws =
     pcapng_to_har env input_file output_file
       (as_tshark (map_of kws ''tshark''))
       (as_str (map_of kws ''socket_operations_file''))
       (as_str (map_of kws ''cryptography_operations_file''))
       (truthy (map_of kws ''overwrite''))
       (filter (\<lambda>kv. fst kv \<notin> set keyword_only) kws)"

section \<open>cli\<close>

record args =
  args_i :: string
  args_o :: "string option"
  args_force :: bool
  args_tshark :: string
  args_socket_operations_file :: "string option"
  args_cryptography_operations_file :: "string option"

definition of_opt :: "string option \<Rightarrow> pyval" where
  "of_opt x = (case x of None \<Rightarrow> PyNone | Some s \<Rightarrow> PyStr s)"

definition cli :: "('tr, 'h) env \<Rightarrow> args \<Rightarrow> ('h, unit) prog" where
  "cli env a =
     try_except
       (bind (lift (Tshark_init env (Some (args_tshark a)))) (\<lambda>t.
          pcapng_to_har_call env (args_i a) (args_o a)
            [(''tshark'', PyTshark t),
             (''overwrite'', PyBool (args_force a)),
             (''socket_operations_file'', of_opt (args_socket_operations_file a)),
             (''cryptographic_operations_file'', of_opt (args_cryptography_operations_file a))]))
       (\<lambda>e. raise (RuntimeError (args_i a) e))"

section \<open>Assertions about runs\<close>

text \<open>
  \<open>wp m Q w\<close>: the run of \<open>m\<close> from the world \<open>w\<close> ends in a result and a world that
  satisfy \<open>Q\<close>.
\<close>

definition wp :: "('h, 'a) prog \<Rightarrow> (error + 'a \<Rightarrow> 'h world \<Rightarrow> bool) \<Rightarrow> 'h world \<Rightarrow> bool" where
  "wp m Q w = Q (fst (m w)) (snd (m w))"

text \<open>Where the output path comes from, and which executable wrapper is used.\<close>

definition output_of :: "string \<Rightarrow> string option \<Rightarrow> error + path" where
  "output_of input_file output_file =
     (case output_file of None \<Rightarrow> with_suffix (Path input_file) ''.har'' | Some s \<Rightarrow> Inr (Path s))"

definition tshark_of :: "('tr, 'h) env \<Rightarrow> tshark option \<Rightarrow> error + tshark" where
  "tshark_of env tshark = (case tshark of None \<Rightarrow> Tshark_init env None | Some t \<Rightarrow> Inr t)"

text \<open>What a run of \<open>convert\<close> from the world \<open>w\<close> can end in.\<close>

definition convert_post ::
  "('tr, 'h) env \<Rightarrow> string \<Rightarrow> string option \<Rightarrow> tshark option \<Rightarrow> bool \<Rightarrow> kwargs \<Rightarrow> 'h world
     \<Rightarrow> error + path \<times> 'h \<Rightarrow> 'h world \<Rightarrow> bool" where
  "convert_post env inp outp ts ow kws w r w' =
     (case r of
        Inr (out, har) \<Rightarrow>
          (\<exists>t tr0 tr.
             output_of inp outp = Inr out \<and> out \<noteq> Path inp \<and> (fs w out = None \<or> ow) \<and>
             tshark_of env ts = Inr t \<and>
             load_traffic env t (Path inp) (fs w) = Inr tr0 \<and>
             parse_traffic env tr0 = Inr tr \<and>
             fst (save_har env tr out ow kws (fs w)) = None \<and>
             to_har env tr = Inr har \<and>
             w' = w\<lparr>calls := calls w @ [Load_traffic t (Path inp), Parse_traffic,
                                       Save_har out ow kws, To_har],
                    fs := snd (save_har env tr out ow kws (fs w))\<rparr>)
      | Inl e \<Rightarrow>
          logged w' = logged w \<and>
          (fs w' = fs w \<and>
             (calls w' = calls w
              \<or> (\<exists>t. calls w' = calls w @ [Load_traffic t (Path inp)])
              \<or> (\<exists>t. calls w' = calls w @ [Load_traffic t (Path inp), Parse_traffic]))
           \<or> (\<exists>out t tr0 tr.
                 output_of inp outp = Inr out \<and> tshark_of env ts = Inr t \<and>
                 load_traffic env t (Path inp) (fs w) = Inr tr0 \<and>
                 parse_traffic env tr0 = Inr tr \<and>
                 fs w' = snd (save_har env tr out ow kws (fs w)) \<and>
                 (calls w' = calls w @ [Load_traffic t (Path inp), Parse_traffic,
                                         Save_har out ow kws]
                  \<or> fst (save_har env tr out ow kws (fs w)) = None \<and>
                    calls w' = calls w @ [Load_traffic t (Path inp), Parse_traffic,
                                           Save_har out ow kws, To_har]))))"

text \<open>\<^verbatim>\<open>PurePath.stem\<close>: the name without its suffix.\<close>

definition stem :: "string \<Rightarrow> string" where
  "stem nm = take (length nm - length (suffix nm)) nm"

text \<open>The calls a run of \<^verbatim>\<open>pcapng_to_har\<close> with these arguments can make.\<close>

definition made_by ::
  "string \<Rightarrow> string option \<Rightarrow> string option \<Rightarrow> string option \<Rightarrow> bool \<Rightarrow> kwargs \<Rightarrow> 'h call \<Rightarrow> bool" where
  "made_by inp outp sof cof ow kws c =
     ((\<exists>t. c = Load_traffic t (Path inp)) \<or> c = Parse_traffic \<or> c = To_har
      \<or> (\<exists>out. output_of inp outp = Inr out \<and> (c = Save_har out ow kws \<or> c = Open_w out))
      \<or> (\<exists>p. c = Stacktrace_enrich p \<and> Path_if sof = Some p)
      \<or> (\<exists>p. c = ContentDecryption_enrich p \<and> Path_if cof = Some p)
      \<or> (\<exists>h. c = Json_dump h kws))"

text \<open>\<^verbatim>\<open>is_file()\<close> as a predicate on a file system; a run in which an enrichment pass was called.\<close>

definition regular :: "filesystem \<Rightarrow> path \<Rightarrow> bool" where
  "regular F p = (case F p of Some (File _) \<Rightarrow> True | _ \<Rightarrow> False)"

definition ran :: "'h call list \<Rightarrow> bool" where
  "ran cs = (\<exists>p. Stacktrace_enrich p \<in> set cs \<or> ContentDecryption_enrich p \<in> set cs)"

text \<open>What a run of \<open>enrich\<close> from the world \<open>w\<close> can end in; \<open>new\<close> are the calls it adds.\<close>

definition enrich_post ::
  "('tr, 'h) env \<Rightarrow> path \<Rightarrow> 'h \<Rightarrow> string option \<Rightarrow> string option \<Rightarrow> kwargs \<Rightarrow> 'h world
     \<Rightarrow> error + unit \<Rightarrow> 'h world \<Rightarrow> bool" where
  "enrich_post env out har sof cof kws w r w' =
     (\<exists>new. calls w' = calls w @ new \<and>
        ((\<exists>h k. Json_dump h k \<in> set new) \<longrightarrow> ran new) \<and>
        ((\<exists>p. Open_w p \<in> set new) \<longrightarrow> ran new) \<and>
        (r = Inr () \<and> ran new \<longrightarrow> (\<exists>h. Json_dump h kws \<in> set new)) \<and>
        (\<not> ran new \<longrightarrow> r = Inr ()) \<and>
        ((\<forall>p. Open_w p \<notin> set new) \<longrightarrow> fs w' = fs w) \<and>
        (\<forall>h k. Json_dump h k \<in> set new \<longrightarrow>
           k = kws \<and> fs w' = (fs w)(out \<mapsto> File (fst (json_dump env h kws))) \<and>
           (\<forall>e. r = Inl e \<longrightarrow> snd (json_dump env h kws) = Some e) \<and>
           (r = Inr () \<longrightarrow> snd (json_dump env h kws) = None)) \<and>
        ((\<forall>p. ContentDecryption_enrich p \<notin> set new) \<longrightarrow>
           (\<forall>h k. Json_dump h k \<in> set new \<longrightarrow>
              (\<exists>p. Stacktrace env har p (fs w) = Inr h))) \<and>
        (\<forall>p. Stacktrace_enrich p \<in> set new \<longrightarrow> Path_if sof = Some p \<and> regular (fs w) p) \<and>
        (\<forall>p. ContentDecryption_enrich p \<in> set new \<longrightarrow>
           Path_if cof = Some p \<and> regular (fs w) p))"

section \<open>Concrete collaborators and inputs\<close>

text \<open>
  A small instance of the collaborators, on which the theorems are exercised: the capture
  is one record, the HAR data a list of entries (content, attached call stack), and
  \<^verbatim>\<open>json.dump\<close> refuses a keyword that is not one of its own, as \<^verbatim>\<open>JSONEncoder\<close> does.
  \<open>no_match_env\<close> has a stacktrace pass that matches no entry, \<open>failing_dump_env\<close> a
  \<^verbatim>\<open>json.dump\<close> that raises after writing a prefix.
\<close>

definition json_keywords :: "string list" where
  "json_keywords = [''skipkeys'', ''ensure_ascii'', ''check_circular'', ''allow_nan'', ''cls'',
     ''indent'', ''separators'', ''default'', ''sort_keys'']"

definition demo_env :: "(string list, (string \<times> string option) list) env" where
  "demo_env =
     \<lparr>Tshark_init = (\<lambda>x. Inr (Tshark x)),
      load_traffic = (\<lambda>t p F. case F p of Some (File c) \<Rightarrow> Inr [c]
                                | _ \<Rightarrow> Inl (Raised ''cannot read the capture'')),
      parse_traffic = (\<lambda>tr. if tr = [[]] then Inl (Raised ''no packet'') else Inr tr),
      save_har = (\<lambda>tr p ow kws F. (None, F(p \<mapsto> File (concat tr)))),
      to_har = (\<lambda>tr. Inr (map (\<lambda>c. (c, None)) tr)),
      Stacktrace = (\<lambda>h p F. Inr (map (\<lambda>e. (fst e, Some ''frame'')) h)),
      ContentDecryption = (\<lambda>h p F. Inr (map (\<lambda>e. (''plain'', snd e)) h)),
      json_dump = (\<lambda>h kws.
         if \<forall>k\<in>set (map fst kws). k \<in> set json_keywords then (concat (map fst h), None)
         else ([], Some (TypeError ''unexpected keyword argument'')))\<rparr>"


definition failing_dump_env :: "(string list, (string \<times> string option) list) env" where
  \<open>failing_dump_env =
     demo_env\<lparr>json_dump := (\<lambda>h kws. (''{"log": '', Some (TypeError ''not JSON serializable'')))\<rparr>\<close>

definition demo_fs :: filesystem where
  "demo_fs = [Path ''c.pcapng'' \<mapsto> File ''GET'', Path ''s.json'' \<mapsto> File ''[]'',
              Path ''a.json'' \<mapsto> File ''[]'']"

definition dot_har_fs :: filesystem where
  "dot_har_fs = [Path ''.har'' \<mapsto> File ''GET'']"

definition demo_args :: args where
  "demo_args = \<lparr>args_i = ''c.pcapng'', args_o = None, args_force = False,
     args_tshark = ''tshark'', args_socket_operations_file = Some ''s.json'',
     args_cryptography_operations_file = Some ''a.json''\<rparr>"

section \<open>The two enrichment passes, from the specification\<close>

text \<open>
  Modelled from the spec: the classes \<^verbatim>\<open>Stacktrace\<close> and \<^verbatim>\<open>ContentDecryption\<close> of
  \<^verbatim>\<open>pcapng_utils.har.pirogue_enrichment\<close> are imported by the converter and are not part of
  the source at hand. The records below are the entities of the specification's data model
  (sections 3, 4.4 and 4.5) with the fields the passes read and write.
\<close>

type_synonym endpoint = "string \<times> nat"

datatype direction = Request | Response

text \<open>
  Modelled from the spec: a handle is opaque. Section 4.5 names two things it can be
  resolved from, an identifier of the socket that a stacktrace enrichment attached and the
  hash of the stored ciphertext; the two kinds are kept apart.
\<close>

datatype handle = Socket nat | Hash string

record SocketOperationRecord =
  process_id :: nat
  thread_id :: nat
  socket_fd :: nat
  local_endpoint :: endpoint
  remote_endpoint :: endpoint
  timestamp :: int
  frames :: "(string \<times> string option) list"

record CryptoOperationRecord =
  handle :: handle
  op_direction :: direction
  ciphertext :: string
  plaintext :: string

record Content =
  content_text :: string
  content_encoding :: "string option"
  content_mimeType :: string

record HarEntry =
  startedDateTime :: int
  server_endpoint :: endpoint
  request_content :: Content
  response_content :: Content
  ext_stack :: "(nat \<times> (string \<times> string option) list) option"
  ext_decrypted :: "direction list"

record HarDocument =
  version :: string
  creator :: "string \<times> string"
  entries :: "HarEntry list"

text \<open>
  Modelled from the spec: section 4.4. The candidates of an entry are the socket operations
  on the entry's remote endpoint whose timestamp precedes the entry's start time by at most
  the window; the closest preceding one is selected, the smallest process id breaking a
  tie; its socket identifier and its call-stack frames go to the extension area. No
  candidate leaves the entry as it is.
\<close>

definition candidates :: "int \<Rightarrow> SocketOperationRecord list \<Rightarrow> HarEntry \<Rightarrow> SocketOperationRecord list" where
  "candidates window feed e =
     filter (\<lambda>r. remote_endpoint r = server_endpoint e \<and> timestamp r \<le> startedDateTime e \<and>
                 startedDateTime e - timestamp r \<le> window) feed"

fun closest :: "SocketOperationRecord list \<Rightarrow> SocketOperationRecord option" where
  "closest [] = None"
| "closest (r # rs) =
     (case closest rs of
        None \<Rightarrow> Some r
      | Some b \<Rightarrow>
          if timestamp r < timestamp b \<or> (timestamp r = timestamp b \<and> process_id b < process_id r)
          then Some b else Some r)"

definition stacktrace_entry :: "int \<Rightarrow> SocketOperationRecord list \<Rightarrow> HarEntry \<Rightarrow> HarEntry" where
  "stacktrace_entry window feed e =
     (case closest (candidates window feed e) of
        None \<Rightarrow> e
      | Some r \<Rightarrow> e\<lparr>ext_stack := Some (socket_fd r, frames r)\<rparr>)"

definition Stacktrace_enricher :: "int \<Rightarrow> SocketOperationRecord list \<Rightarrow> HarDocument \<Rightarrow> HarDocument" where
  "Stacktrace_enricher window feed d = d\<lparr>entries := map (stacktrace_entry window feed) (entries d)\<rparr>"

text \<open>
  Modelled from the spec: section 4.5. The records are looked up by handle and direction.
  For the request and the response of an entry independently, a handle is resolved from
  data present on the entry; on a match the stored content is replaced by the plaintext,
  its encoding marker and MIME type are set for plaintext, and the extension area records
  that the side was decrypted. The specification leaves open how the handle is resolved:
  \<open>resolve\<close> is a parameter.
\<close>

definition lookup_crypto :: "CryptoOperationRecord list \<Rightarrow> handle \<Rightarrow> direction \<Rightarrow> CryptoOperationRecord option" where
  "lookup_crypto feed h d = find (\<lambda>r. handle r = h \<and> op_direction r = d) feed"

definition matching ::
  "(HarEntry \<Rightarrow> direction \<Rightarrow> handle option) \<Rightarrow> CryptoOperationRecord list \<Rightarrow> HarEntry \<Rightarrow> direction
     \<Rightarrow> CryptoOperationRecord option" where
  "matching resolve feed e d =
     (case resolve e d of None \<Rightarrow> None | Some h \<Rightarrow> lookup_crypto feed h d)"

definition substitute :: "CryptoOperationRecord \<Rightarrow> Content \<Rightarrow> Content" where
  "substitute r c =
     c\<lparr>content_text := plaintext r, content_encoding := None, content_mimeType := ''text/plain''\<rparr>"

definition decrypt_entry ::
  "(HarEntry \<Rightarrow> direction \<Rightarrow> handle option) \<Rightarrow> CryptoOperationRecord list \<Rightarrow> HarEntry \<Rightarrow> HarEntry" where
  "decrypt_entry resolve feed e =
     (let rq = matching resolve feed e Request;
          rs = matching resolve feed e Response;
          e1 = (case rq of
                  None \<Rightarrow> e
                | Some r \<Rightarrow> e\<lparr>request_content := substitute r (request_content e),
                               ext_decrypted := ext_decrypted e @ [Request]\<rparr>)
      in (case rs of
            None \<Rightarrow> e1
          | Some r \<Rightarrow> e1\<lparr>response_content := substitute r (response_content e1),
                          ext_decrypted := ext_decrypted e1 @ [Response]\<rparr>))"

definition ContentDecryption_enricher ::
  "(HarEntry \<Rightarrow> direction \<Rightarrow> handle option) \<Rightarrow> CryptoOperationRecord list \<Rightarrow> HarDocument
     \<Rightarrow> HarDocument" where
  "ContentDecryption_enricher resolve feed d =
     d\<lparr>entries := map (decrypt_entry resolve feed) (entries d)\<rparr>"

text \<open>
  Modelled from the spec: the two resolutions section 4.5 names. \<open>by_attached_socket\<close>
  takes the socket identifier a stacktrace enrichment attached to the entry;
  \<open>by_stored_content\<close> takes the identity of the stored ciphertext (the text itself stands
  for its hash).
\<close>

definition by_attached_socket :: "HarEntry \<Rightarrow> direction \<Rightarrow> handle option" where
  "by_attached_socket e d = (case ext_stack e of None \<Rightarrow> None | Some (fd, fr) \<Rightarrow> Some (Socket fd))"

definition by_stored_content :: "HarEntry \<Rightarrow> direction \<Rightarrow> handle option" where
  "by_stored_content e d =
     Some (Hash (content_text
       (case d of Request \<Rightarrow> request_content e | Response \<Rightarrow> response_content e)))"

definition demo_entry :: HarEntry where
  "demo_entry =
     \<lparr>startedDateTime = 100, server_endpoint = (''10.0.0.1'', 443),
      request_content = \<lparr>content_text = ''c2VjcmV0'', content_encoding = Some ''base64'',
                          content_mimeType = ''application/octet-stream''\<rparr>,
      response_content = \<lparr>content_text = ''b2s='', content_encoding = Some ''base64'',
                           content_mimeType = ''application/octet-stream''\<rparr>,
      ext_stack = None, ext_decrypted = []\<rparr>"

definition demo_document :: HarDocument where
  "demo_document = \<lparr>version = ''1.2'', creator = (''pcapng-utils'', ''1''), entries = [demo_entry]\<rparr>"

definition demo_socket_feed :: "SocketOperationRecord list" where
  "demo_socket_feed =
     [\<lparr>process_id = 7, thread_id = 1, socket_fd = 3, local_endpoint = (''10.0.0.2'', 5000),
       remote_endpoint = (''10.0.0.1'', 443), timestamp = 90,
       frames = [(''connect'', None)]\<rparr>]"

definition demo_crypto_feed :: "CryptoOperationRecord list" where
  "demo_crypto_feed =
     [\<lparr>handle = Hash ''c2VjcmV0'', op_direction = Request, ciphertext = ''c2VjcmV0'',
       plaintext = ''secret''\<rparr>]"

definition demo_socket_crypto_feed :: "CryptoOperationRecord list" where
  "demo_socket_crypto_feed =
     [\<lparr>handle = Socket 3, op_direction = Request, ciphertext = ''c2VjcmV0'',
       plaintext = ''secret''\<rparr>]"

section \<open>Rules for weakest preconditions\<close>

lemma wp_return: "wp (return x) Q w = Q (Inr x) w"
  by (simp add: wp_def return_def)

lemma wp_raise: "wp (raise e) Q w = Q (Inl e) w"
  by (simp add: wp_def raise_def)

lemma wp_lift: "wp (lift r) Q w = Q r w"
  by (simp add: wp_def lift_def)

lemma wp_bind:
  "wp (bind m f) Q w =
     wp m (\<lambda>r w'. case r of Inl e \<Rightarrow> Q (Inl e) w' | Inr x \<Rightarrow> wp (f x) Q w') w"
  by (simp add: wp_def bind_def split: prod.split sum.split)

lemma wp_logger: "wp (logger l s) Q w = Q (Inr ()) (w\<lparr>logged := logged w @ [(l, s)]\<rparr>)"
  by (simp add: wp_def logger_def)

lemma wp_exists: "wp (exists p) Q w = Q (Inr (fs w p \<noteq> None)) w"
  by (simp add: wp_def exists_def)

lemma wp_is_file:
  "wp (is_file p) Q w = Q (Inr (case fs w p of Some (File _) \<Rightarrow> True | _ \<Rightarrow> False)) w"
  by (simp add: wp_def is_file_def)

lemma wp_py_assert:
  "wp (py_assert b a) Q w = (if b then Q (Inr ()) w else Q (Inl (AssertionError a)) w)"
  by (simp add: wp_def py_assert_def return_def raise_def)

lemma wp_if: "wp (if b then m else n) Q w = (if b then wp m Q w else wp n Q w)"
  by simp

lemma wp_case_option:
  "wp (case x of None \<Rightarrow> m | Some y \<Rightarrow> n y) Q w =
     (case x of None \<Rightarrow> wp m Q w | Some y \<Rightarrow> wp (n y) Q w)"
  by (simp split: option.split)

lemma wp_case_prod: "wp (case x of (a, b) \<Rightarrow> m a b) Q w = wp (m (fst x) (snd x)) Q w"
  by (simp split: prod.split)

lemma wp_open_w:
  "wp (open_w p) Q w =
     (if fs w p = Some Dir then Q (Inl (IsADirectoryError p)) (w\<lparr>calls := calls w @ [Open_w p]\<rparr>)
      else Q (Inr ()) (w\<lparr>calls := calls w @ [Open_w p], fs := (fs w)(p \<mapsto> File [])\<rparr>))"
  by (simp add: wp_def open_w_def bind_def called_def split: option.split node.split)

lemma wp_do_load_traffic:
  "wp (do_load_traffic env t p) Q w =
     Q (load_traffic env t p (fs w)) (w\<lparr>calls := calls w @ [Load_traffic t p]\<rparr>)"
  by (simp add: wp_def do_load_traffic_def bind_def called_def)

lemma wp_do_parse_traffic:
  "wp (do_parse_traffic env tr) Q w =
     Q (parse_traffic env tr) (w\<lparr>calls := calls w @ [Parse_traffic]\<rparr>)"
  by (simp add: wp_def do_parse_traffic_def bind_def called_def lift_def)

lemma wp_do_to_har:
  "wp (do_to_har env tr) Q w = Q (to_har env tr) (w\<lparr>calls := calls w @ [To_har]\<rparr>)"
  by (simp add: wp_def do_to_har_def bind_def called_def lift_def)

lemma wp_do_save_har:
  "wp (do_save_har env tr p ow kws) Q w =
     Q (case fst (save_har env tr p ow kws (fs w)) of None \<Rightarrow> Inr () | Some e \<Rightarrow> Inl e)
       (w\<lparr>calls := calls w @ [Save_har p ow kws], fs := snd (save_har env tr p ow kws (fs w))\<rparr>)"
  by (simp add: wp_def do_save_har_def bind_def called_def split: prod.split option.split)

lemma wp_do_Stacktrace:
  "wp (do_Stacktrace env h p) Q w =
     Q (Stacktrace env h p (fs w)) (w\<lparr>calls := calls w @ [Stacktrace_enrich p]\<rparr>)"
  by (simp add: wp_def do_Stacktrace_def bind_def called_def)

lemma wp_do_ContentDecryption:
  "wp (do_ContentDecryption env h p) Q w =
     Q (ContentDecryption env h p (fs w)) (w\<lparr>calls := calls w @ [ContentDecryption_enrich p]\<rparr>)"
  by (simp add: wp_def do_ContentDecryption_def bind_def called_def)

lemma wp_do_json_dump:
  "wp (do_json_dump env h p kws) Q w =
     Q (case snd (json_dump env h kws) of None \<Rightarrow> Inr () | Some e \<Rightarrow> Inl e)
       (w\<lparr>calls := calls w @ [Json_dump h kws],
          fs := (fs w)(p \<mapsto> File (fst (json_dump env h kws)))\<rparr>)"
  by (simp add: wp_def do_json_dump_def bind_def called_def split: prod.split option.split)

lemmas wp_rules = wp_return wp_raise wp_lift wp_bind wp_logger wp_exists wp_is_file
  wp_py_assert wp_if wp_case_option wp_case_prod wp_open_w wp_do_load_traffic
  wp_do_parse_traffic wp_do_to_har wp_do_save_har wp_do_Stacktrace wp_do_ContentDecryption
  wp_do_json_dump

lemma wp_cut:
  assumes "wp m R w"
    and "\<And>e w'. R (Inl e) w' \<Longrightarrow> Q (Inl e) w'"
    and "\<And>x w'. R (Inr x) w' \<Longrightarrow> wp (f x) Q w'"
  shows "wp (bind m f) Q w"
proof (cases "m w")
  case (Pair r w')
  with assms show ?thesis
    by (cases r) (auto simp: wp_def bind_def)
qed

lemma wp_mono: "wp m R w \<Longrightarrow> (\<And>r w'. R r w' \<Longrightarrow> Q r w') \<Longrightarrow> wp m Q w"
  by (simp add: wp_def)

section \<open>What a run can end in\<close>

lemma wp_convert: "wp (convert env inp outp ts ow kws) (convert_post env inp outp ts ow kws w) w"
  unfolding convert_def Let_def convert_post_def output_of_def tshark_of_def
  by (simp add: wp_rules split: sum.split option.split)

lemma pcapng_to_har_raised:
  "fst (convert env inp outp ts ow kws w) = Inl e \<Longrightarrow>
   pcapng_to_har env inp outp ts sof cof ow kws w = (Inl e, snd (convert env inp outp ts ow kws w))"
  by (cases "convert env inp outp ts ow kws w") (simp add: pcapng_to_har_def bind_def)

lemma pcapng_to_har_converted:
  "convert env inp outp ts ow kws w = (Inr (out, har), w1) \<Longrightarrow>
   pcapng_to_har env inp outp ts sof cof ow kws w = enrich env out har sof cof kws w1"
  by (simp add: pcapng_to_har_def bind_def)

lemma enrich_calls:
  "wp (enrich env out har sof cof kws)
     (\<lambda>r w'. \<exists>new. calls w' = calls w @ new \<and>
        (\<forall>c\<in>set new. (\<exists>p. c = Stacktrace_enrich p \<and> Path_if sof = Some p)
           \<or> (\<exists>p. c = ContentDecryption_enrich p \<and> Path_if cof = Some p)
           \<or> c = Open_w out \<or> (\<exists>h. c = Json_dump h kws))) w"
  unfolding enrich_def add_stacktrace_def add_decryption_def save_enriched_def
  by (simp add: wp_rules split: sum.split option.split node.split)

lemma pcapng_to_har_calls:
  "wp (pcapng_to_har env inp outp ts sof cof ow kws)
     (\<lambda>r w'. \<exists>new. calls w' = calls w @ new \<and> (\<forall>c\<in>set new. made_by inp outp sof cof ow kws c)) w"
  unfolding pcapng_to_har_def
proof (rule wp_cut [OF wp_convert])
  fix e w'
  assume "convert_post env inp outp ts ow kws w (Inl e) w'"
  then show "\<exists>new. calls w' = calls w @ new \<and> (\<forall>c\<in>set new. made_by inp outp sof cof ow kws c)"
    by (auto simp: convert_post_def made_by_def)
next
  fix x w1
  assume a: "convert_post env inp outp ts ow kws w (Inr x) w1"
  obtain out har where x: "x = (out, har)" by (cases x)
  from a x obtain t where o: "output_of inp outp = Inr out"
    and c: "calls w1 = calls w @ [Load_traffic t (Path inp), Parse_traffic, Save_har out ow kws, To_har]"
    by (auto simp: convert_post_def)
  show "wp (case x of (output_path, har_data) \<Rightarrow> enrich env output_path har_data sof cof kws)
          (\<lambda>r w'. \<exists>new. calls w' = calls w @ new \<and> (\<forall>c\<in>set new. made_by inp outp sof cof ow kws c)) w1"
    unfolding x prod.case
  proof (rule wp_mono [OF enrich_calls])
    fix r w'
    assume "\<exists>new. calls w' = calls w1 @ new \<and>
        (\<forall>c\<in>set new. (\<exists>p. c = Stacktrace_enrich p \<and> Path_if sof = Some p)
           \<or> (\<exists>p. c = ContentDecryption_enrich p \<and> Path_if cof = Some p)
           \<or> c = Open_w out \<or> (\<exists>h. c = Json_dump h kws))"
    then obtain new where n: "calls w' = calls w1 @ new"
      and m: "\<forall>c\<in>set new. (\<exists>p. c = Stacktrace_enrich p \<and> Path_if sof = Some p)
           \<or> (\<exists>p. c = ContentDecryption_enrich p \<and> Path_if cof = Some p)
           \<or> c = Open_w out \<or> (\<exists>h. c = Json_dump h kws)"
      by blast
    have "calls w' = calls w @ ([Load_traffic t (Path inp), Parse_traffic, Save_har out ow kws, To_har] @ new)"
      using n c by simp
    moreover have "\<forall>c\<in>set ([Load_traffic t (Path inp), Parse_traffic, Save_har out ow kws, To_har] @ new).
        made_by inp outp sof cof ow kws c"
      using m o unfolding made_by_def by auto
    ultimately show "\<exists>new. calls w' = calls w @ new \<and> (\<forall>c\<in>set new. made_by inp outp sof cof ow kws c)"
      by blast
  qed
qed

lemma wp_enrich: "wp (enrich env out har sof cof kws) (enrich_post env out har sof cof kws w) w"
  unfolding enrich_def add_stacktrace_def add_decryption_def save_enriched_def enrich_post_def
    ran_def regular_def
  apply (simp add: wp_rules split: sum.split option.split node.split)
  apply (intro allI conjI impI; blast)
  done

lemma pcapng_to_har_cases:
  fixes env :: "('tr, 'h) env" and inp outp ts sof cof ow kws w
  defines "run \<equiv> pcapng_to_har env inp outp ts sof cof ow kws w"
  shows "(\<exists>e. fst run = Inl e \<and> convert_post env inp outp ts ow kws w (Inl e) (snd run))
       \<or> (\<exists>out har w1. convert_post env inp outp ts ow kws w (Inr (out, har)) w1 \<and>
             enrich_post env out har sof cof kws w1 (fst run) (snd run))"
proof (cases "convert env inp outp ts ow kws w")
  case (Pair r w1)
  have post: "convert_post env inp outp ts ow kws w r w1"
    using wp_convert [of env inp outp ts ow kws w] Pair by (simp add: wp_def)
  show ?thesis
  proof (cases r)
    case (Inl e)
    then have "run = (Inl e, w1)"
      using Pair pcapng_to_har_raised [of env inp outp ts ow kws w e sof cof]
      by (simp add: run_def)
    then show ?thesis using post Inl by simp
  next
    case (Inr x)
    obtain out har where x: "x = (out, har)" by (cases x)
    have "run = enrich env out har sof cof kws w1"
      using Pair Inr x pcapng_to_har_converted [of env inp outp ts ow kws w out har w1 sof cof]
      by (simp add: run_def)
    then have "enrich_post env out har sof cof kws w1 (fst run) (snd run)"
      using wp_enrich [of env out har sof cof kws w1] by (simp add: wp_def)
    then show ?thesis using post Inr x by blast
  qed
qed

lemmas run_defs = pcapng_to_har_def convert_def enrich_def add_stacktrace_def add_decryption_def
  save_enriched_def bind_def return_def raise_def lift_def py_assert_def logger_def called_def
  exists_def is_file_def open_w_def do_load_traffic_def do_parse_traffic_def do_save_har_def
  do_to_har_def do_Stacktrace_def do_ContentDecryption_def do_json_dump_def Path_if_def
  Path_def splitroot_def with_suffix_def name_def suffix_def rfind_def str_def start_def
  demo_env_def demo_fs_def json_keywords_def
  output_of_def tshark_of_def Let_def

section \<open>The command line\<close>

lemma as_str_of_opt: "as_str (Some (of_opt x)) = x"
  by (cases x) (simp_all add: as_str_def of_opt_def)

lemma cli_call:
  "pcapng_to_har_call env i outp
     [(''tshark'', PyTshark t), (''overwrite'', PyBool force),
      (''socket_operations_file'', of_opt sof),
      (''cryptographic_operations_file'', of_opt cof)] =
   pcapng_to_har env i outp (Some t) sof None force [(''cryptographic_operations_file'', of_opt cof)]"
  by (cases sof) (simp_all add: pcapng_to_har_call_def as_tshark_def truthy_def keyword_only_def
      as_str_def of_opt_def)

lemma cli_run:
  "cli env a w =
     (case Tshark_init env (Some (args_tshark a)) of
        Inl c \<Rightarrow> (Inl (RuntimeError (args_i a) c), w)
      | Inr t \<Rightarrow>
          (case pcapng_to_har env (args_i a) (args_o a) (Some t) (args_socket_operations_file a)
                  None (args_force a)
                  [(''cryptographic_operations_file'', of_opt (args_cryptography_operations_file a))] w of
             (Inl c, w') \<Rightarrow> (Inl (RuntimeError (args_i a) c), w')
           | (Inr x, w') \<Rightarrow> (Inr x, w')))"
  by (simp add: cli_def try_except_def bind_def lift_def raise_def cli_call
        split: sum.split prod.split)

text \<open>
  Claim C1. \<^verbatim>\<open>cli()\<close> passes the cryptography operations file under the keyword
  \<^verbatim>\<open>cryptographic_operations_file\<close>. \<^verbatim>\<open>pcapng_to_har\<close> has no parameter of that name (its
  parameter is \<^verbatim>\<open>cryptography_operations_file\<close>), so the call binds the parameter to its
  default \<^verbatim>\<open>None\<close> and the keyword lands in \<^verbatim>\<open>**json_dump_kws\<close>. In every run of
  \<^verbatim>\<open>cli()\<close> the decryption pass is therefore never called, and every call of
  \<^verbatim>\<open>save_har\<close> and of \<^verbatim>\<open>json.dump\<close> receives the stray keyword with the file path.
\<close>
theorem cli_misspelt_keyword:
  assumes "args_cryptography_operations_file a = Some f"
  shows "(\<forall>t. pcapng_to_har_call (env :: ('tr, 'h) env) (args_i a) (args_o a)
                [(''tshark'', PyTshark t), (''overwrite'', PyBool (args_force a)),
                 (''socket_operations_file'', of_opt (args_socket_operations_file a)),
                 (''cryptographic_operations_file'', of_opt (args_cryptography_operations_file a))]
             = pcapng_to_har env (args_i a) (args_o a) (Some t) (args_socket_operations_file a)
                 None (args_force a) [(''cryptographic_operations_file'', PyStr f)])
     \<and> (\<forall>c\<in>set (calls (snd (cli env a (start fs0)))).
           (\<forall>p. c \<noteq> ContentDecryption_enrich p) \<and>
           (\<forall>p ow k. c = Save_har p ow k \<longrightarrow> k = [(''cryptographic_operations_file'', PyStr f)]) \<and>
           (\<forall>h k. c = Json_dump h k \<longrightarrow> k = [(''cryptographic_operations_file'', PyStr f)]))"
proof (intro conjI)
  show "\<forall>t. pcapng_to_har_call env (args_i a) (args_o a)
                [(''tshark'', PyTshark t), (''overwrite'', PyBool (args_force a)),
                 (''socket_operations_file'', of_opt (args_socket_operations_file a)),
                 (''cryptographic_operations_file'', of_opt (args_cryptography_operations_file a))]
             = pcapng_to_har env (args_i a) (args_o a) (Some t) (args_socket_operations_file a)
                 None (args_force a) [(''cryptographic_operations_file'', PyStr f)]"
    using cli_call [of env "args_i a" "args_o a" _ "args_force a"
        "args_socket_operations_file a" "args_cryptography_operations_file a"] assms
    by (simp add: of_opt_def)
next
  let ?K = "[(''cryptographic_operations_file'', PyStr f)]"
  have m: "made_by (args_i a) (args_o a) (args_socket_operations_file a) None (args_force a) ?K c"
    if c: "c \<in> set (calls (snd (cli env a (start fs0))))" for c :: "'h call"
  proof (cases "Tshark_init env (Some (args_tshark a))")
    case (Inl e)
    then show ?thesis using c by (simp add: cli_run start_def)
  next
    case (Inr t)
    have "calls (snd (cli env a (start fs0))) =
          calls (snd (pcapng_to_har env (args_i a) (args_o a) (Some t)
             (args_socket_operations_file a) None (args_force a) ?K (start fs0)))"
      using Inr assms by (simp add: cli_run of_opt_def split: prod.split sum.split)
    then show ?thesis
      using c pcapng_to_har_calls [of env "args_i a" "args_o a" "Some t"
          "args_socket_operations_file a" None "args_force a" ?K "start fs0"]
      by (auto simp: wp_def start_def)
  qed
  show "\<forall>c\<in>set (calls (snd (cli env a (start fs0)))).
           (\<forall>p. c \<noteq> ContentDecryption_enrich p) \<and>
           (\<forall>p ow k. c = Save_har p ow k \<longrightarrow> k = ?K) \<and>
           (\<forall>h k. c = Json_dump h k \<longrightarrow> k = ?K)"
  proof
    fix c :: "'h call"
    assume "c \<in> set (calls (snd (cli env a (start fs0))))"
    from m [OF this] show "(\<forall>p. c \<noteq> ContentDecryption_enrich p) \<and>
           (\<forall>p ow k. c = Save_har p ow k \<longrightarrow> k = ?K) \<and>
           (\<forall>h k. c = Json_dump h k \<longrightarrow> k = ?K)"
      by (auto simp: made_by_def Path_if_def)
  qed
qed

theorem cli_misspelt_keyword_witness:
  "args_cryptography_operations_file demo_args = Some ''a.json'' \<and>
   Save_har (Path ''c.har'') False [(''cryptographic_operations_file'', PyStr ''a.json'')]
     \<in> set (calls (snd (cli demo_env demo_args (start demo_fs)))) \<and>
   Json_dump [(''GET'', Some ''frame'')] [(''cryptographic_operations_file'', PyStr ''a.json'')]
     \<in> set (calls (snd (cli demo_env demo_args (start demo_fs)))) \<and>
   ContentDecryption_enrich (Path ''a.json'')
     \<notin> set (calls (snd (cli demo_env demo_args (start demo_fs)))) \<and>
   regular demo_fs (Path ''a.json'') \<and>
   fst (cli demo_env demo_args (start demo_fs))
     = Inl (RuntimeError ''c.pcapng'' (TypeError ''unexpected keyword argument''))"
proof -
  have a: "args_cryptography_operations_file demo_args = Some ''a.json''"
    by (simp add: demo_args_def)
  have c: "calls (snd (cli demo_env demo_args (start demo_fs))) =
     [Load_traffic (Tshark (Some ''tshark'')) (Path ''c.pcapng''), Parse_traffic,
      Save_har (Path ''c.har'') False [(''cryptographic_operations_file'', PyStr ''a.json'')],
      To_har, Stacktrace_enrich (Path ''s.json''), Open_w (Path ''c.har''),
      Json_dump [(''GET'', Some ''frame'')] [(''cryptographic_operations_file'', PyStr ''a.json'')]]"
    by (simp add: cli_run demo_args_def of_opt_def run_defs)
  have r: "fst (cli demo_env demo_args (start demo_fs))
     = Inl (RuntimeError ''c.pcapng'' (TypeError ''unexpected keyword argument''))"
    by (simp add: cli_run demo_args_def of_opt_def run_defs)
  have f: "regular demo_fs (Path ''a.json'')"
    by (simp add: regular_def demo_fs_def Path_def splitroot_def)
  from cli_misspelt_keyword [OF a, of demo_env demo_fs]
  have "\<forall>p. Save_har (Path ''c.har'') False [(''cryptographic_operations_file'', PyStr ''a.json'')]
            \<noteq> ContentDecryption_enrich p"
    by simp
  moreover from cli_misspelt_keyword [OF a, of demo_env demo_fs]
  have "ContentDecryption_enrich (Path ''a.json'')
     \<notin> set (calls (snd (cli demo_env demo_args (start demo_fs))))"
    by blast
  ultimately show ?thesis
    using a c r f by simp
qed

text \<open>
  Claim C10. Whatever exception the conversion raises inside the \<^verbatim>\<open>try\<close> block of
  \<^verbatim>\<open>cli()\<close>, either in the construction of the \<^verbatim>\<open>Tshark\<close> wrapper or in
  \<^verbatim>\<open>pcapng_to_har\<close>, \<^verbatim>\<open>cli()\<close> raises \<^verbatim>\<open>RuntimeError(args.i)\<close> with that exception as
  its cause; every exception that leaves \<^verbatim>\<open>cli()\<close> is such a \<^verbatim>\<open>RuntimeError\<close>.
\<close>
theorem cli_wraps_every_exception:
  "(\<forall>e. fst (cli env a w) = Inl e \<longrightarrow> (\<exists>c. e = RuntimeError (args_i a) c))
   \<and> (\<forall>c. Tshark_init env (Some (args_tshark a)) = Inl c \<longrightarrow>
         cli env a w = (Inl (RuntimeError (args_i a) c), w))
   \<and> (\<forall>t c. Tshark_init env (Some (args_tshark a)) = Inr t \<and>
         fst (pcapng_to_har_call env (args_i a) (args_o a)
                [(''tshark'', PyTshark t), (''overwrite'', PyBool (args_force a)),
                 (''socket_operations_file'', of_opt (args_socket_operations_file a)),
                 (''cryptographic_operations_file'', of_opt (args_cryptography_operations_file a))] w)
           = Inl c \<longrightarrow>
         fst (cli env a w) = Inl (RuntimeError (args_i a) c))"
  by (auto simp: cli_run cli_call split: sum.splits prod.splits)

theorem cli_wraps_every_exception_witness:
  "Tshark_init demo_env (Some (args_tshark demo_args)) = Inr (Tshark (Some ''tshark'')) \<and>
   fst (pcapng_to_har_call demo_env (args_i demo_args) (args_o demo_args)
          [(''tshark'', PyTshark (Tshark (Some ''tshark''))),
           (''overwrite'', PyBool (args_force demo_args)),
           (''socket_operations_file'', of_opt (args_socket_operations_file demo_args)),
           (''cryptographic_operations_file'',
              of_opt (args_cryptography_operations_file demo_args))]
          (start Map.empty :: (string \<times> string option) list world))
     = Inl (Raised ''cannot read the capture'') \<and>
   fst (cli demo_env demo_args (start Map.empty :: (string \<times> string option) list world))
     = Inl (RuntimeError ''c.pcapng'' (Raised ''cannot read the capture''))"
proof -
  have t: "Tshark_init demo_env (Some (args_tshark demo_args)) = Inr (Tshark (Some ''tshark''))"
    by (simp add: demo_env_def demo_args_def)
  have p: "fst (pcapng_to_har_call demo_env (args_i demo_args) (args_o demo_args)
          [(''tshark'', PyTshark (Tshark (Some ''tshark''))),
           (''overwrite'', PyBool (args_force demo_args)),
           (''socket_operations_file'', of_opt (args_socket_operations_file demo_args)),
           (''cryptographic_operations_file'',
              of_opt (args_cryptography_operations_file demo_args))]
          (start Map.empty :: (string \<times> string option) list world))
     = Inl (Raised ''cannot read the capture'')"
    unfolding cli_call by (simp add: demo_args_def of_opt_def run_defs)
  show ?thesis
    using t p cli_wraps_every_exception [of demo_env demo_args
        "start Map.empty :: (string \<times> string option) list world"]
    by (simp add: demo_args_def)
qed

section \<open>Fatal errors\<close>





section \<open>The default output path\<close>

lemma suffix_har: "st \<noteq> [] \<Longrightarrow> suffix (st @ ''.har'') = ''.har''"
  by (simp add: suffix_def rfind_def Let_def)

lemma with_suffix_stem:
  "name p \<noteq> [] \<Longrightarrow>
   with_suffix p ''.har'' = Inr (PurePath (root p) (butlast (parts p) @ [stem (name p) @ ''.har'']))"
  by (simp add: with_suffix_def stem_def Let_def)

lemma with_suffix_same:
  assumes "name p = st @ ''.har''" "st \<noteq> []"
  shows "with_suffix p ''.har'' = Inr p"
proof -
  have ne: "parts p \<noteq> []" using assms by (auto simp: name_def)
  then have l: "last (parts p) = st @ ''.har''" using assms by (simp add: name_def split: list.splits)
  have "stem (name p) = st" using assms by (simp add: stem_def suffix_har)
  then have "with_suffix p ''.har'' = Inr (PurePath (root p) (butlast (parts p) @ [last (parts p)]))"
    using assms l by (simp add: with_suffix_stem)
  then show ?thesis using ne by simp
qed

lemma convert_same_path:
  assumes "output_of inp outp = Inr (Path inp)"
  shows "convert env inp outp ts ow kws w = (Inl (AssertionError (Path inp)), w)"
  using assms unfolding convert_def Let_def output_of_def
  by (cases outp) (simp_all add: bind_def lift_def return_def py_assert_def raise_def)

lemma with_suffix_empty_name:
  "name p = [] \<Longrightarrow> with_suffix p ''.har'' = Inl (ValueError ''has an empty name'')"
  by (simp add: with_suffix_def)

lemma convert_empty_name:
  assumes "name (Path inp) = []"
  shows "convert env inp None ts ow kws w = (Inl (ValueError ''has an empty name''), w)"
  using with_suffix_empty_name [OF assms] unfolding convert_def Let_def
  by (simp add: bind_def lift_def)

lemma convert_reaches_save_har:
  assumes "with_suffix (Path inp) ''.har'' = Inr out" "out \<noteq> Path inp" "fs w out = None \<or> ow"
    "tshark_of env ts = Inr t" "load_traffic env t (Path inp) (fs w) = Inr tr0"
    "parse_traffic env tr0 = Inr tr"
  shows "wp (convert env inp None ts ow kws)
           (\<lambda>r w'. \<exists>rest. calls w' = calls w @ [Load_traffic t (Path inp), Parse_traffic,
                                                Save_har out ow kws] @ rest) w"
  using assms unfolding convert_def Let_def tshark_of_def
  by (cases ts) (auto simp add: wp_rules split: sum.split option.split)

lemma pcapng_to_har_reaches_save_har:
  fixes env :: "('tr, 'h) env"
  assumes "with_suffix (Path inp) ''.har'' = Inr out" "out \<noteq> Path inp" "fs w out = None \<or> ow"
    "tshark_of env ts = Inr t" "load_traffic env t (Path inp) (fs w) = Inr tr0"
    "parse_traffic env tr0 = Inr tr"
  shows "\<exists>rest. calls (snd (pcapng_to_har env inp None ts sof cof ow kws w)) =
           calls w @ [Load_traffic t (Path inp), Parse_traffic, Save_har out ow kws] @ rest"
proof (cases "convert env inp None ts ow kws w")
  case (Pair r w1)
  from convert_reaches_save_har [OF assms, of kws] Pair
  obtain rest where c: "calls w1 = calls w @ [Load_traffic t (Path inp), Parse_traffic,
      Save_har out ow kws] @ rest"
    by (auto simp: wp_def)
  show ?thesis
  proof (cases r)
    case (Inl e)
    then have "pcapng_to_har env inp None ts sof cof ow kws w = (Inl e, w1)"
      using Pair pcapng_to_har_raised [of env inp None ts ow kws w e sof cof] by simp
    with c show ?thesis by simp
  next
    case (Inr x)
    obtain out' har where x: "x = (out', har)" by (cases x)
    have "pcapng_to_har env inp None ts sof cof ow kws w = enrich env out' har sof cof kws w1"
      using Pair Inr x pcapng_to_har_converted [of env inp None ts ow kws w out' har w1 sof cof]
      by simp
    moreover obtain new where
      "calls (snd (enrich env out' har sof cof kws w1)) = calls w1 @ new"
      using wp_enrich [of env out' har sof cof kws w1]
      unfolding wp_def enrich_post_def by blast
    ultimately show ?thesis using c by simp
  qed
qed

text \<open>
  Claim C9 as stated fails: the name \<^verbatim>\<open>.har\<close> ends in \<^verbatim>\<open>.har\<close>, but pathlib gives a name
  that only starts with a dot no suffix; the output path is \<^verbatim>\<open>.har.har\<close>, the assertion
  passes and the conversion runs to its end.
\<close>
theorem dot_har_input_counterexample:
  "name (Path ''.har'') = ''.har'' \<and>
   pcapng_to_har demo_env ''.har'' None None None None False [] (start dot_har_fs) =
   (Inr (),
    \<lparr>fs = dot_har_fs(Path ''.har.har'' \<mapsto> File ''GET''),
     logged = [(ERROR, ''Invalid stacktrace data input file, skip enrichment''),
               (ERROR, ''Invalid decryption data input file, skip enrichment''),
               (INFO, ''The HAR has been saved in .har.har'')],
     calls = [Load_traffic (Tshark None) (Path ''.har''), Parse_traffic,
              Save_har (Path ''.har.har'') False [], To_har]\<rparr>)"
  by (simp add: run_defs dot_har_fs_def)

text \<open>
  Claim C9, as the code has it. With \<^verbatim>\<open>output_file = None\<close>: an input path with an empty
  name raises \<^verbatim>\<open>ValueError\<close> and the world is unchanged; otherwise the output path is
  \<^verbatim>\<open>input_file.with_suffix(".har")\<close>, the final component of the input path with its last
  suffix replaced by \<^verbatim>\<open>.har\<close> (appended when it has none). This is the path the run uses:
  when it differs from the input path and the checks, the loader and the parser pass, the
  run begins with \<^verbatim>\<open>load_traffic\<close>, \<^verbatim>\<open>parse_traffic\<close> and \<^verbatim>\<open>save_har\<close> on that path, and no
  run calls \<^verbatim>\<open>save_har\<close> on another path. An input whose name is a non-empty stem followed
  by \<^verbatim>\<open>.har\<close> gives an output path equal to the input path, so the assertion fails: the
  call raises \<^verbatim>\<open>AssertionError(input_file)\<close> and the world is unchanged, no file having been
  read or written.
\<close>
theorem default_output_path:
  fixes env :: "('tr, 'h) env"
  shows "(name (Path inp) = [] \<longrightarrow>
      pcapng_to_har env inp None ts sof cof ow kws w =
        (Inl (ValueError ''has an empty name''), w))
   \<and> (name (Path inp) \<noteq> [] \<longrightarrow>
      with_suffix (Path inp) ''.har'' =
        Inr (PurePath (root (Path inp))
               (butlast (parts (Path inp)) @ [stem (name (Path inp)) @ ''.har''])))
   \<and> (with_suffix (Path inp) ''.har'' = Inr out \<and> out \<noteq> Path inp \<and> (fs w out = None \<or> ow) \<and>
       tshark_of env ts = Inr t \<and> load_traffic env t (Path inp) (fs w) = Inr tr0 \<and>
       parse_traffic env tr0 = Inr tr \<longrightarrow>
         (\<exists>rest. calls (snd (pcapng_to_har env inp None ts sof cof ow kws w)) =
            calls w @ [Load_traffic t (Path inp), Parse_traffic, Save_har out ow kws] @ rest))
   \<and> (\<forall>c\<in>set (calls (snd (pcapng_to_har env inp None ts sof cof ow kws (start fs0)))).
         \<forall>p o' k. c = Save_har p o' k \<longrightarrow> with_suffix (Path inp) ''.har'' = Inr p)
   \<and> (name (Path inp) = st @ ''.har'' \<and> st \<noteq> [] \<longrightarrow>
         pcapng_to_har env inp None ts sof cof ow kws w = (Inl (AssertionError (Path inp)), w))"
proof (intro conjI impI)
  assume "name (Path inp) = []"
  from convert_empty_name [OF this, of env ts ow kws w]
  show "pcapng_to_har env inp None ts sof cof ow kws w =
        (Inl (ValueError ''has an empty name''), w)"
    using pcapng_to_har_raised [of env inp None ts ow kws w "ValueError ''has an empty name''"
        sof cof]
    by simp
next
  assume "name (Path inp) \<noteq> []"
  then show "with_suffix (Path inp) ''.har'' =
        Inr (PurePath (root (Path inp))
               (butlast (parts (Path inp)) @ [stem (name (Path inp)) @ ''.har'']))"
    by (simp add: with_suffix_stem)
next
  assume "with_suffix (Path inp) ''.har'' = Inr out \<and> out \<noteq> Path inp \<and> (fs w out = None \<or> ow) \<and>
       tshark_of env ts = Inr t \<and> load_traffic env t (Path inp) (fs w) = Inr tr0 \<and>
       parse_traffic env tr0 = Inr tr"
  then show "\<exists>rest. calls (snd (pcapng_to_har env inp None ts sof cof ow kws w)) =
            calls w @ [Load_traffic t (Path inp), Parse_traffic, Save_har out ow kws] @ rest"
    using pcapng_to_har_reaches_save_har [of inp out w ow env ts t tr0 tr sof cof kws]
    by blast
next
  have "calls (start fs0 :: 'h world) = []"
    by (simp add: start_def)
  with pcapng_to_har_calls [of env inp None ts sof cof ow kws "start fs0"]
  have "\<forall>c\<in>set (calls (snd (pcapng_to_har env inp None ts sof cof ow kws (start fs0)))).
          made_by inp None sof cof ow kws c"
    by (simp add: wp_def)
  then show "\<forall>c\<in>set (calls (snd (pcapng_to_har env inp None ts sof cof ow kws (start fs0)))).
         \<forall>p o' k. c = Save_har p o' k \<longrightarrow> with_suffix (Path inp) ''.har'' = Inr p"
    unfolding made_by_def output_of_def by fastforce
next
  assume "name (Path inp) = st @ ''.har'' \<and> st \<noteq> []"
  then have "output_of inp None = Inr (Path inp)"
    by (simp add: output_of_def with_suffix_same)
  from convert_same_path [OF this, of env ts ow kws w]
  show "pcapng_to_har env inp None ts sof cof ow kws w = (Inl (AssertionError (Path inp)), w)"
    using pcapng_to_har_raised [of env inp None ts ow kws w "AssertionError (Path inp)" sof cof]
    by simp
qed

theorem default_output_path_witness:
  "with_suffix (Path ''c.pcapng'') ''.har'' = Inr (Path ''c.har'') \<and>
   take 3 (calls (snd (pcapng_to_har demo_env ''c.pcapng'' None None None None False []
                        (start demo_fs)))) =
     [Load_traffic (Tshark None) (Path ''c.pcapng''), Parse_traffic,
      Save_har (Path ''c.har'') False []] \<and>
   name (Path ''old.har'') = ''old'' @ ''.har'' \<and>
   pcapng_to_har demo_env ''old.har'' None None None None False []
     (start demo_fs :: (string \<times> string option) list world)
     = (Inl (AssertionError (Path ''old.har'')), start demo_fs)"
proof -
  have a: "with_suffix (Path ''c.pcapng'') ''.har'' = Inr (Path ''c.har'')"
    by (simp add: run_defs)
  have b: "Path ''c.har'' \<noteq> Path ''c.pcapng''"
    "fs (start demo_fs :: (string \<times> string option) list world) (Path ''c.har'') = None"
    "tshark_of demo_env None = Inr (Tshark None)"
    "load_traffic demo_env (Tshark None) (Path ''c.pcapng'')
       (fs (start demo_fs :: (string \<times> string option) list world)) = Inr [''GET'']"
    "parse_traffic demo_env [''GET''] = Inr [''GET'']"
    by (simp_all add: run_defs)
  have n: "name (Path ''old.har'') = ''old'' @ ''.har'' \<and> ''old'' \<noteq> []"
    by (simp add: name_def Path_def splitroot_def)
  have e: "calls (start demo_fs :: (string \<times> string option) list world) = []"
    by (simp add: start_def)
  from a b e
    default_output_path [where inp = "''c.pcapng''" and env = demo_env and ts = None
      and sof = None and cof = None and ow = False and kws = "[]" and w = "start demo_fs"
      and out = "Path ''c.har''" and t = "Tshark None" and tr = "[''GET'']"]
  obtain rest where "calls (snd (pcapng_to_har demo_env ''c.pcapng'' None None None None False []
                        (start demo_fs))) =
     [Load_traffic (Tshark None) (Path ''c.pcapng''), Parse_traffic,
      Save_har (Path ''c.har'') False []] @ rest"
    by fastforce
  then have t3: "take 3 (calls (snd (pcapng_to_har demo_env ''c.pcapng'' None None None None
                        False [] (start demo_fs)))) =
     [Load_traffic (Tshark None) (Path ''c.pcapng''), Parse_traffic,
      Save_har (Path ''c.har'') False []]"
    by simp
  show ?thesis
    using a t3 n
      default_output_path [where inp = "''old.har''" and st = "''old''" and env = demo_env
        and ts = None and sof = None and cof = None and ow = False and kws = "[]"
        and w = "start demo_fs"]
    by simp
qed

section \<open>The enrichment stage\<close>

lemma add_stacktrace_skip:
  assumes "Path_if sof = None \<or> (\<exists>p. Path_if sof = Some p \<and> \<not> regular (fs w) p)"
  shows "add_stacktrace env har sof w =
           (Inr (False, har),
            w\<lparr>logged := logged w @ [(ERROR, ''Invalid stacktrace data input file, skip enrichment'')]\<rparr>)"
  using assms
  by (cases "Path_if sof")
     (auto simp: add_stacktrace_def bind_def logger_def return_def is_file_def regular_def
           split: option.splits node.splits)

lemma add_decryption_skip:
  assumes "Path_if cof = None \<or> (\<exists>p. Path_if cof = Some p \<and> \<not> regular (fs w) p)"
  shows "add_decryption env en har cof w =
           (Inr (en, har),
            w\<lparr>logged := logged w @ [(ERROR, ''Invalid decryption data input file, skip enrichment'')]\<rparr>)"
  using assms
  by (cases "Path_if cof")
     (auto simp: add_decryption_def bind_def logger_def return_def is_file_def regular_def
           split: option.splits node.splits)

text \<open>
  Claim C4 as stated fails: with both feeds omitted the run returns normally, and the two
  records that report the skipped passes have level \<^verbatim>\<open>ERROR\<close>, not \<^verbatim>\<open>WARNING\<close>.
\<close>
theorem missing_feed_logged_as_error_counterexample:
  "pcapng_to_har demo_env ''c.pcapng'' None None None (Some ''gone.json'') False []
     (start demo_fs) =
   (Inr (),
    \<lparr>fs = demo_fs(Path ''c.har'' \<mapsto> File ''GET''),
     logged = [(ERROR, ''Invalid stacktrace data input file, skip enrichment''),
               (ERROR, ''Invalid decryption data input file, skip enrichment''),
               (INFO, ''The HAR has been saved in c.har'')],
     calls = [Load_traffic (Tshark None) (Path ''c.pcapng''), Parse_traffic,
              Save_har (Path ''c.har'') False [], To_har]\<rparr>)"
  by (simp add: run_defs)

text \<open>
  Claim C4, as the code has it. When the feed path of a pass is \<^verbatim>\<open>None\<close>, empty or not a
  regular file, the pass is skipped and raises nothing: the block returns the document and
  the flag it was given (the flag is \<^verbatim>\<open>False\<close> after the first block), calls no
  collaborator, leaves the file system alone, and adds one record to the log, at level
  \<^verbatim>\<open>ERROR\<close> (\<^verbatim>\<open>logger.error\<close>).
\<close>
theorem missing_feed_skips_with_error_record:
  "(Path_if sof = None \<or> (\<exists>p. Path_if sof = Some p \<and> \<not> regular (fs w) p) \<longrightarrow>
      add_stacktrace env har sof w =
        (Inr (False, har),
         w\<lparr>logged := logged w @ [(ERROR, ''Invalid stacktrace data input file, skip enrichment'')]\<rparr>))
   \<and> (Path_if cof = None \<or> (\<exists>p. Path_if cof = Some p \<and> \<not> regular (fs w) p) \<longrightarrow>
      add_decryption env en har cof w =
        (Inr (en, har),
         w\<lparr>logged := logged w @ [(ERROR, ''Invalid decryption data input file, skip enrichment'')]\<rparr>))"
  using add_stacktrace_skip [of sof w env har] add_decryption_skip [of cof w env en har]
  by blast

theorem missing_feed_skips_with_error_record_witness:
  "Path_if None = None \<and>
   Path_if (Some ''gone.json'') = Some (Path ''gone.json'') \<and>
   \<not> regular demo_fs (Path ''gone.json'') \<and>
   add_stacktrace demo_env [(''GET'', None)] None (start demo_fs) =
     (Inr (False, [(''GET'', None)]),
      \<lparr>fs = demo_fs,
       logged = [(ERROR, ''Invalid stacktrace data input file, skip enrichment'')],
       calls = []\<rparr>) \<and>
   add_decryption demo_env True [(''GET'', None)] (Some ''gone.json'') (start demo_fs) =
     (Inr (True, [(''GET'', None)]),
      \<lparr>fs = demo_fs,
       logged = [(ERROR, ''Invalid decryption data input file, skip enrichment'')],
       calls = []\<rparr>)"
proof -
  have a: "Path_if None = None"
    by (simp add: Path_if_def)
  have b: "Path_if (Some ''gone.json'') = Some (Path ''gone.json'')"
    by (simp add: Path_if_def)
  have c: "\<not> regular demo_fs (Path ''gone.json'')"
    by (simp add: regular_def demo_fs_def Path_def splitroot_def)
  have d: "fs (start demo_fs :: (string \<times> string option) list world) = demo_fs"
    by (simp add: start_def)
  show ?thesis
    using a b c d
      missing_feed_skips_with_error_record [of None
        "start demo_fs :: (string \<times> string option) list world" demo_env "[(''GET'', None)]"
        "Some ''gone.json''" True]
    by (simp add: start_def)
qed




text \<open>
  Claim C5 as stated fails: \<^verbatim>\<open>json.dump\<close> raises after writing a prefix of the document;
  the call raises, and the output path, which held the complete unenriched HAR, holds the
  prefix.
\<close>
theorem partial_output_counterexample:
  \<open>snd (save_har failing_dump_env [''GET''] (Path ''c.har'') False [] demo_fs) (Path ''c.har'')
     = Some (File ''GET'') \<and>
   fst (pcapng_to_har failing_dump_env ''c.pcapng'' None None (Some ''s.json'') None False []
          (start demo_fs)) = Inl (TypeError ''not JSON serializable'') \<and>
   fs (snd (pcapng_to_har failing_dump_env ''c.pcapng'' None None (Some ''s.json'') None False []
          (start demo_fs))) (Path ''c.har'') = Some (File ''{"log": '')\<close>
  by (simp add: run_defs failing_dump_env_def)

text \<open>
  Claim C5, as the code has it. The enriched document is written in place, with no
  temporary file: whenever \<^verbatim>\<open>json.dump\<close> has been called, the call raises exactly when the
  dump raised, with the exception of the dump, and returns normally otherwise; in both
  cases the output path holds exactly the text the dump wrote, on top of the file system
  \<^verbatim>\<open>save_har\<close> left, and no other path has changed. A run that never entered
  \<^verbatim>\<open>save_har\<close> leaves the file system unchanged.
\<close>
theorem reserialization_writes_in_place:
  fixes env :: "('tr, 'h) env" and inp outp ts sof cof ow kws fs0
  defines "run \<equiv> pcapng_to_har env inp outp ts sof cof ow kws (start fs0)"
  shows "(\<forall>h k. Json_dump h k \<in> set (calls (snd run)) \<longrightarrow>
            k = kws \<and>
            fst run = (case snd (json_dump env h kws) of None \<Rightarrow> Inr () | Some e \<Rightarrow> Inl e) \<and>
            (\<exists>out t tr0 tr.
               output_of inp outp = Inr out \<and> tshark_of env ts = Inr t \<and>
               load_traffic env t (Path inp) fs0 = Inr tr0 \<and> parse_traffic env tr0 = Inr tr \<and>
               fs (snd run) =
                 (snd (save_har env tr out ow kws fs0))(out \<mapsto> File (fst (json_dump env h kws)))))
     \<and> ((\<forall>p o' k. Save_har p o' k \<notin> set (calls (snd run))) \<longrightarrow> fs (snd run) = fs0)"
  using pcapng_to_har_cases [of env inp outp ts sof cof ow kws "start fs0"]
  unfolding run_def [symmetric]
proof (elim disjE exE conjE)
  fix e
  assume "fst run = Inl e" "convert_post env inp outp ts ow kws (start fs0) (Inl e) (snd run)"
  then show ?thesis
    by (auto simp: convert_post_def start_def)
next
  fix out har w1
  assume c: "convert_post env inp outp ts ow kws (start fs0) (Inr (out, har)) w1"
    and e: "enrich_post env out har sof cof kws w1 (fst run) (snd run)"
  from c obtain t tr0 tr where o: "output_of inp outp = Inr out" "tshark_of env ts = Inr t"
      "load_traffic env t (Path inp) fs0 = Inr tr0" "parse_traffic env tr0 = Inr tr"
    and w1: "calls w1 = [Load_traffic t (Path inp), Parse_traffic, Save_har out ow kws, To_har]"
      "fs w1 = snd (save_har env tr out ow kws fs0)"
    by (auto simp: convert_post_def start_def)
  from e obtain new where n: "calls (snd run) = calls w1 @ new"
    and p: "\<forall>h k. Json_dump h k \<in> set new \<longrightarrow>
           k = kws \<and> fs (snd run) = (fs w1)(out \<mapsto> File (fst (json_dump env h kws))) \<and>
           (\<forall>e. fst run = Inl e \<longrightarrow> snd (json_dump env h kws) = Some e) \<and>
           (fst run = Inr () \<longrightarrow> snd (json_dump env h kws) = None)"
    unfolding enrich_post_def by blast
  have j: "Json_dump h k \<in> set (calls (snd run)) \<longleftrightarrow> Json_dump h k \<in> set new" for h k
    using n w1 by auto
  have s: "Save_har out ow kws \<in> set (calls (snd run))"
    using n w1 by simp
  show ?thesis
    unfolding j
  proof (intro conjI allI impI)
    fix h k
    assume a: "Json_dump h k \<in> set new"
    with p show "k = kws" by blast
    from a p have f: "fs (snd run) = (fs w1)(out \<mapsto> File (fst (json_dump env h kws)))"
      and l: "\<forall>e. fst run = Inl e \<longrightarrow> snd (json_dump env h kws) = Some e"
      and r: "fst run = Inr () \<longrightarrow> snd (json_dump env h kws) = None"
      by blast+
    show "fst run = (case snd (json_dump env h kws) of None \<Rightarrow> Inr () | Some e \<Rightarrow> Inl e)"
    proof (cases "fst run")
      case (Inl e)
      with l show ?thesis by simp
    next
      case (Inr u)
      with r show ?thesis by simp
    qed
    from f show "\<exists>out t tr0 tr.
               output_of inp outp = Inr out \<and> tshark_of env ts = Inr t \<and>
               load_traffic env t (Path inp) fs0 = Inr tr0 \<and> parse_traffic env tr0 = Inr tr \<and>
               fs (snd run) =
                 (snd (save_har env tr out ow kws fs0))(out \<mapsto> File (fst (json_dump env h kws)))"
      using o w1 by auto
  next
    assume "\<forall>p o' k. Save_har p o' k \<notin> set (calls (snd run))"
    with s show "fs (snd run) = fs0" by blast
  qed
qed

theorem reserialization_writes_in_place_witness:
  \<open>Json_dump [(''GET'', Some ''frame'')] []
     \<in> set (calls (snd (pcapng_to_har failing_dump_env ''c.pcapng'' None None (Some ''s.json'')
          None False [] (start demo_fs)))) \<and>
   json_dump failing_dump_env [(''GET'', Some ''frame'')] []
     = (''{"log": '', Some (TypeError ''not JSON serializable'')) \<and>
   fst (pcapng_to_har failing_dump_env ''c.pcapng'' None None (Some ''s.json'') None False []
          (start demo_fs)) = Inl (TypeError ''not JSON serializable'')\<close>
proof -
  have c: "Json_dump [(''GET'', Some ''frame'')] []
     \<in> set (calls (snd (pcapng_to_har failing_dump_env ''c.pcapng'' None None (Some ''s.json'')
          None False [] (start demo_fs))))"
    by (simp add: run_defs failing_dump_env_def)
  have d: \<open>json_dump failing_dump_env [(''GET'', Some ''frame'')] []
     = (''{"log": '', Some (TypeError ''not JSON serializable''))\<close>
    by (simp add: failing_dump_env_def)
  from c reserialization_writes_in_place [of failing_dump_env "''c.pcapng''" None None
        "Some ''s.json''" None False "[]" demo_fs]
  have "fst (pcapng_to_har failing_dump_env ''c.pcapng'' None None (Some ''s.json'') None False []
          (start demo_fs)) =
        (case snd (json_dump failing_dump_env [(''GET'', Some ''frame'')] []) of
           None \<Rightarrow> Inr () | Some e \<Rightarrow> Inl e)"
    by blast
  with c d show ?thesis by simp
qed






section \<open>The order of the two passes\<close>

lemma candidates_decrypt:
  "candidates window sf (decrypt_entry resolve cf e) = candidates window sf e"
  by (simp add: candidates_def decrypt_entry_def Let_def split: option.split)

lemma decrypt_entry_ext_stack:
  assumes "\<forall>e s d. resolve (e\<lparr>ext_stack := s\<rparr>) d = resolve e d"
  shows "decrypt_entry resolve cf (e\<lparr>ext_stack := s\<rparr>) = (decrypt_entry resolve cf e)\<lparr>ext_stack := s\<rparr>"
  using assms by (simp add: decrypt_entry_def matching_def Let_def split: option.split)

lemma entry_passes_commute:
  assumes "\<forall>e s d. resolve (e\<lparr>ext_stack := s\<rparr>) d = resolve e d"
  shows "decrypt_entry resolve cf (stacktrace_entry window sf e) =
         stacktrace_entry window sf (decrypt_entry resolve cf e)"
proof (cases "closest (candidates window sf e)")
  case None
  then show ?thesis
    by (simp add: stacktrace_entry_def candidates_decrypt)
next
  case (Some r)
  then show ?thesis
    using decrypt_entry_ext_stack [OF assms]
    by (simp add: stacktrace_entry_def candidates_decrypt)
qed

text \<open>
  Claim C8 as stated fails on the passes as the specification describes them: when the
  handle is resolved from the socket identifier a stacktrace enrichment attached, the
  decryption pass finds its record after the stacktrace pass and finds none before it, so
  the two orders give different documents.
\<close>
theorem order_matters_counterexample:
  "entries (ContentDecryption_enricher by_attached_socket demo_socket_crypto_feed
     (Stacktrace_enricher 60 demo_socket_feed demo_document)) =
   [demo_entry\<lparr>request_content := \<lparr>content_text = ''secret'', content_encoding = None,
                                      content_mimeType = ''text/plain''\<rparr>,
               ext_stack := Some (3, [(''connect'', None)]), ext_decrypted := [Request]\<rparr>] \<and>
   entries (Stacktrace_enricher 60 demo_socket_feed
     (ContentDecryption_enricher by_attached_socket demo_socket_crypto_feed demo_document)) =
   [demo_entry\<lparr>ext_stack := Some (3, [(''connect'', None)])\<rparr>] \<and>
   ContentDecryption_enricher by_attached_socket demo_socket_crypto_feed
     (Stacktrace_enricher 60 demo_socket_feed demo_document) \<noteq>
   Stacktrace_enricher 60 demo_socket_feed
     (ContentDecryption_enricher by_attached_socket demo_socket_crypto_feed demo_document)"
  by (simp add: ContentDecryption_enricher_def Stacktrace_enricher_def demo_document_def
      demo_entry_def demo_socket_feed_def demo_socket_crypto_feed_def stacktrace_entry_def
      candidates_def decrypt_entry_def matching_def lookup_crypto_def by_attached_socket_def
      substitute_def Let_def)

text \<open>
  Claim C8, as the specification's passes have it. On every document and every pair of
  feeds, the stacktrace pass followed by the decryption pass gives the same document as
  the decryption pass followed by the stacktrace pass, for every way of resolving the
  handle of an entry that does not read what the stacktrace pass attaches (the passes then
  read and write disjoint fields).
\<close>
theorem enrichment_passes_commute:
  assumes "\<forall>e s d. resolve (e\<lparr>ext_stack := s\<rparr>) d = resolve e d"
  shows "ContentDecryption_enricher resolve cf (Stacktrace_enricher window sf doc) =
         Stacktrace_enricher window sf (ContentDecryption_enricher resolve cf doc)"
  using entry_passes_commute [OF assms]
  by (simp add: ContentDecryption_enricher_def Stacktrace_enricher_def)

theorem enrichment_passes_commute_witness:
  "ContentDecryption_enricher by_stored_content demo_crypto_feed
     (Stacktrace_enricher 60 demo_socket_feed demo_document) =
   Stacktrace_enricher 60 demo_socket_feed
     (ContentDecryption_enricher by_stored_content demo_crypto_feed demo_document) \<and>
   entries (Stacktrace_enricher 60 demo_socket_feed
     (ContentDecryption_enricher by_stored_content demo_crypto_feed demo_document)) =
   [demo_entry\<lparr>request_content := \<lparr>content_text = ''secret'', content_encoding = None,
                                      content_mimeType = ''text/plain''\<rparr>,
               ext_stack := Some (3, [(''connect'', None)]), ext_decrypted := [Request]\<rparr>]"
proof -
  have f: "\<forall>e s d. by_stored_content (e\<lparr>ext_stack := s\<rparr>) d = by_stored_content e d"
    by (simp add: by_stored_content_def split: direction.split)
  have v: "entries (Stacktrace_enricher 60 demo_socket_feed
     (ContentDecryption_enricher by_stored_content demo_crypto_feed demo_document)) =
   [demo_entry\<lparr>request_content := \<lparr>content_text = ''secret'', content_encoding = None,
                                      content_mimeType = ''text/plain''\<rparr>,
               ext_stack := Some (3, [(''connect'', None)]), ext_decrypted := [Request]\<rparr>]"
    by (simp add: ContentDecryption_enricher_def Stacktrace_enricher_def demo_document_def
        demo_entry_def demo_socket_feed_def demo_crypto_feed_def stacktrace_entry_def
        candidates_def decrypt_entry_def matching_def lookup_crypto_def by_stored_content_def
        substitute_def Let_def)
  show ?thesis
    using v enrichment_passes_commute [OF f, of demo_crypto_feed 60 demo_socket_feed demo_document]
    by simp
qed
end
